theory Spec2Isabelle
  imports Main "HOL-Library.Word"
begin

section \<open>The profiler control facade of icd: \<open>src/valgrind_icd.cpp\<close>\<close>

text \<open>
  The file defines two exported functions, \<open>valgrindCallgrindStart\<close> and
  \<open>valgrindCallgrindStop\<close>. Each of them writes lines to the console stream
  \<open>Rcout\<close>, issues Callgrind client requests, or calls the \<open>DEBUG\<close> macro, and returns
  the C++ \<open>int\<close> 0. Which of these happens is selected by the preprocessor symbol
  \<open>ICD_VALGRIND\<close>.

  The effects are modelled by explicit state passing. The state is the sequence of
  everything the process has emitted so far, oldest first; every primitive appends one
  event to it. A single sequence keeps the relative order of console lines and client
  requests, which the source fixes by statement order.
\<close>

subsection \<open>Events and the state\<close>

text \<open>The three Callgrind client requests the file issues.\<close>

datatype signal = START_INSTRUMENTATION | ZERO_STATS | STOP_INSTRUMENTATION

text \<open>
  \<open>Notice s\<close> is the line \<open>s\<close> written to \<open>Rcout\<close> and ended by \<open>std::endl\<close>;
  \<open>Backend g\<close> is the client request \<open>g\<close>; \<open>Diagnostic s\<close> is a call of \<open>DEBUG\<close> with
  the message \<open>s\<close>.
\<close>

datatype event = Notice string | Backend signal | Diagnostic string

type_synonym world = "event list"

subsection \<open>The primitives\<close>

text \<open>\<open>Rcout << s << std::endl;\<close>\<close>

definition Rcout_endl :: "string \<Rightarrow> world \<Rightarrow> world" where
  "Rcout_endl s w = w @ [Notice s]"

text \<open>The three macros of \<open>valgrind/callgrind.h\<close>, each one client request.\<close>

definition CALLGRIND_START_INSTRUMENTATION :: "world \<Rightarrow> world" where
  "CALLGRIND_START_INSTRUMENTATION w = w @ [Backend START_INSTRUMENTATION]"

definition CALLGRIND_ZERO_STATS :: "world \<Rightarrow> world" where
  "CALLGRIND_ZERO_STATS w = w @ [Backend ZERO_STATS]"

definition CALLGRIND_STOP_INSTRUMENTATION :: "world \<Rightarrow> world" where
  "CALLGRIND_STOP_INSTRUMENTATION w = w @ [Backend STOP_INSTRUMENTATION]"

text \<open>
  Modelled from the spec: the macro \<open>DEBUG\<close> is defined in \<open>local.h\<close>, which is included by
  \<open>valgrind_icd.cpp\<close> but is not among the sources. The spec describes its effect as
  a debug-level diagnostic (a diagnostic log line) and nothing else; the model records
  one diagnostic event that carries the macro's argument. Whether a given build prints
  that line is decided inside the macro and is not modelled.
\<close>

definition DEBUG :: "string \<Rightarrow> world \<Rightarrow> world" where
  "DEBUG msg w = w @ [Diagnostic msg]"

subsection \<open>The two exported functions\<close>

text \<open>
  The first argument is the build configuration: \<open>ICD_VALGRIND\<close> is \<open>True\<close> when the
  preprocessor symbol is defined (\<open>#ifdef\<close> branch) and \<open>False\<close> otherwise (\<open>#else\<close>
  branch). The result is the new state and the returned \<open>int\<close>, a 32-bit word (read as
  a signed number by \<open>sint\<close>).

  The first binding is the statement \<open>if (zerostats) {};\<close> of the source, which tests
  the argument and has an empty body.
\<close>

definition valgrindCallgrindStart :: "bool \<Rightarrow> bool \<Rightarrow> world \<Rightarrow> world \<times> 32 word" where
  "valgrindCallgrindStart ICD_VALGRIND zerostats w0 =
    (let w1 = (if zerostats then w0 else w0);
         w2 = (if ICD_VALGRIND then
                 (let wa = Rcout_endl ''Starting callgrind instrumentation...'' w1;
                      wb = CALLGRIND_START_INSTRUMENTATION wa
                  in if zerostats
                     then (let wc = Rcout_endl ''Zeroing callgrind stats.'' wb
                           in CALLGRIND_ZERO_STATS wc)
                     else wb)
               else DEBUG ''NOT starting Valgrind callgrind instrumentation, not linked'' w1)
     in (w2, 0))"

definition valgrindCallgrindStop :: "bool \<Rightarrow> world \<Rightarrow> world \<times> 32 word" where
  "valgrindCallgrindStop ICD_VALGRIND w0 =
    (let w1 = (if ICD_VALGRIND then
                 (let wa = Rcout_endl ''Stopping Valgrind callgrind instrumentation...'' w0
                  in CALLGRIND_STOP_INSTRUMENTATION wa)
               else DEBUG ''NOT stopping Valgrind callgrind instrumentation, not linked.'' w0)
     in (w1, 0))"

subsection \<open>Observations on a state\<close>

text \<open>What a call emitted: the part of the state after the call that lies behind the
  state before it.\<close>

definition emitted :: "world \<Rightarrow> world \<Rightarrow> event list" where
  "emitted w w' = drop (length w) w'"

text \<open>The client requests among some events, in order.\<close>

fun signals :: "event list \<Rightarrow> signal list" where
  "signals [] = []"
| "signals (Backend g # es) = g # signals es"
| "signals (Notice s # es) = signals es"
| "signals (Diagnostic s # es) = signals es"

text \<open>An event with the text of a diagnostic blanked; everything else is kept.\<close>

fun erase_text :: "event \<Rightarrow> event" where
  "erase_text (Diagnostic s) = Diagnostic []"
| "erase_text (Notice s) = Notice s"
| "erase_text (Backend g) = Backend g"

subsection \<open>Sequences of calls\<close>

text \<open>A caller's request, and a caller that issues a list of them one after another,
  collecting the return values.\<close>

datatype call = Start bool | Stop

fun exec :: "bool \<Rightarrow> call \<Rightarrow> world \<Rightarrow> world \<times> 32 word" where
  "exec ICD_VALGRIND (Start zerostats) w = valgrindCallgrindStart ICD_VALGRIND zerostats w"
| "exec ICD_VALGRIND Stop w = valgrindCallgrindStop ICD_VALGRIND w"

fun run :: "bool \<Rightarrow> call list \<Rightarrow> world \<Rightarrow> world \<times> 32 word list" where
  "run ICD_VALGRIND [] w = (w, [])"
| "run ICD_VALGRIND (c # cs) w =
    (let (w1, r) = exec ICD_VALGRIND c w;
         (w2, rs) = run ICD_VALGRIND cs w1
     in (w2, r # rs))"

section \<open>What each function does, as equations\<close>

lemma emitted_append [simp]: "emitted w (w @ es) = es"
  by (simp add: emitted_def)

lemma start_present_zero:
  "valgrindCallgrindStart True True w =
    (w @ [Notice ''Starting callgrind instrumentation...'', Backend START_INSTRUMENTATION,
          Notice ''Zeroing callgrind stats.'', Backend ZERO_STATS], 0)"
  by (simp add: valgrindCallgrindStart_def Rcout_endl_def
      CALLGRIND_START_INSTRUMENTATION_def CALLGRIND_ZERO_STATS_def)

lemma start_present_keep:
  "valgrindCallgrindStart True False w =
    (w @ [Notice ''Starting callgrind instrumentation...'', Backend START_INSTRUMENTATION], 0)"
  by (simp add: valgrindCallgrindStart_def Rcout_endl_def CALLGRIND_START_INSTRUMENTATION_def)

lemma start_absent:
  "valgrindCallgrindStart False zerostats w =
    (w @ [Diagnostic ''NOT starting Valgrind callgrind instrumentation, not linked''], 0)"
  by (simp add: valgrindCallgrindStart_def DEBUG_def)

lemma stop_present:
  "valgrindCallgrindStop True w =
    (w @ [Notice ''Stopping Valgrind callgrind instrumentation...'',
          Backend STOP_INSTRUMENTATION], 0)"
  by (simp add: valgrindCallgrindStop_def Rcout_endl_def CALLGRIND_STOP_INSTRUMENTATION_def)

lemma stop_absent:
  "valgrindCallgrindStop False w =
    (w @ [Diagnostic ''NOT stopping Valgrind callgrind instrumentation, not linked.''], 0)"
  by (simp add: valgrindCallgrindStop_def DEBUG_def)

text \<open>
  Every call appends to the state it is given what it would emit from the empty state,
  and returns what it would return there: the state is extended, never inspected.
\<close>

lemma exec_appends:
  "exec ICD_VALGRIND c w = (w @ fst (exec ICD_VALGRIND c []), snd (exec ICD_VALGRIND c []))"
proof (cases c)
  case (Start zerostats)
  show ?thesis
  proof (cases ICD_VALGRIND)
    case True
    then show ?thesis
      using Start by (cases zerostats) (simp_all add: start_present_zero start_present_keep)
  next
    case False
    then show ?thesis using Start by (simp add: start_absent)
  qed
next
  case Stop
  then show ?thesis
    by (cases ICD_VALGRIND) (simp_all add: stop_present stop_absent)
qed


lemma run_appends:
  "run ICD_VALGRIND h w =
    (w @ concat (map (\<lambda>c. fst (exec ICD_VALGRIND c [])) h),
     map (\<lambda>c. snd (exec ICD_VALGRIND c [])) h)"
proof (induction h arbitrary: w)
  case Nil
  show ?case by simp
next
  case (Cons c h)
  obtain w1 r where e: "exec ICD_VALGRIND c w = (w1, r)" by (cases "exec ICD_VALGRIND c w")
  with exec_appends [of ICD_VALGRIND c w]
  have w1: "w1 = w @ fst (exec ICD_VALGRIND c [])" and r: "r = snd (exec ICD_VALGRIND c [])"
    by simp_all
  show ?case by (simp add: e Cons.IH w1 r)
qed




section \<open>Return values\<close>

text \<open>
  C1. For either value of \<open>zerostats\<close> (the spec's \<open>resetCounters\<close>), in either build
  configuration and from any state, \<open>valgrindCallgrindStart\<close> returns exactly 0. The
  function is total and its result type has no error alternative, so there is no
  failure path.
\<close>

theorem start_returns_zero:
  "snd (valgrindCallgrindStart ICD_VALGRIND zerostats w) = 0"
  by (simp add: valgrindCallgrindStart_def Let_def)

text \<open>
  C2. \<open>valgrindCallgrindStop\<close> takes no argument and returns exactly 0 in either build
  configuration and from any state; its result type has no error alternative.
\<close>

theorem stop_returns_zero:
  "snd (valgrindCallgrindStop ICD_VALGRIND w) = 0"
  by (simp add: valgrindCallgrindStop_def Let_def)

section \<open>The build without the backend\<close>

text \<open>
  C3. With \<open>ICD_VALGRIND\<close> undefined, \<open>start(true)\<close> issues no client request: what it
  emits holds no backend signal and is a single diagnostic. Its return value equals
  that of \<open>start(false)\<close>, and what the two calls emit is equal once the text of the
  diagnostic is set aside. The flag \<open>zerostats\<close> therefore has no effect in this branch.
\<close>

theorem start_absent_ignores_flag:
  "signals (emitted w (fst (valgrindCallgrindStart False True w))) = []
   \<and> map erase_text (emitted w (fst (valgrindCallgrindStart False True w))) = [Diagnostic []]
   \<and> snd (valgrindCallgrindStart False True w) = snd (valgrindCallgrindStart False False w)
   \<and> map erase_text (emitted w (fst (valgrindCallgrindStart False True w)))
       = map erase_text (emitted w (fst (valgrindCallgrindStart False False w)))"
  by (simp add: start_absent)

text \<open>
  C7. With \<open>ICD_VALGRIND\<close> undefined, \<open>valgrindCallgrindStop\<close> appends exactly one event,
  the diagnostic whose text says that instrumentation is not being stopped because
  Valgrind is not linked, and returns 0; it issues no client request.
\<close>

theorem stop_absent_only_diagnostic:
  "valgrindCallgrindStop False w =
     (w @ [Diagnostic ''NOT stopping Valgrind callgrind instrumentation, not linked.''], 0)
   \<and> signals (emitted w (fst (valgrindCallgrindStop False w))) = []"
  by (simp add: stop_absent)

text \<open>
  C8. With \<open>ICD_VALGRIND\<close> undefined, \<open>start(true)\<close> and \<open>start(false)\<close> give the same
  result in full, state and return value, from every state: the diagnostic is the same
  fixed string for either value of \<open>zerostats\<close>, so the two calls agree on the
  diagnostic text as well.
\<close>

theorem start_absent_same_diagnostic:
  "valgrindCallgrindStart False True w = valgrindCallgrindStart False False w
   \<and> emitted w (fst (valgrindCallgrindStart False zerostats w))
       = [Diagnostic ''NOT starting Valgrind callgrind instrumentation, not linked'']"
  by (simp add: start_absent)

section \<open>The build with the backend\<close>

text \<open>
  C4. With \<open>ICD_VALGRIND\<close> defined, \<open>start(true)\<close> followed by \<open>stop()\<close> returns 0 from
  both calls. Together the two calls emit, in this order: the starting notice, the
  request to start instrumentation, the zeroing notice, the request to zero the
  statistics, the stopping notice, the request to stop instrumentation. The backend
  thus receives start, zero, stop in that order, each right after its notice.
\<close>

theorem start_then_stop_present:
  "(let (w1, r1) = valgrindCallgrindStart True True w;
        (w2, r2) = valgrindCallgrindStop True w1
    in r1 = 0 \<and> r2 = 0
       \<and> emitted w w2 =
           [Notice ''Starting callgrind instrumentation...'', Backend START_INSTRUMENTATION,
            Notice ''Zeroing callgrind stats.'', Backend ZERO_STATS,
            Notice ''Stopping Valgrind callgrind instrumentation...'',
            Backend STOP_INSTRUMENTATION]
       \<and> signals (emitted w w2) = [START_INSTRUMENTATION, ZERO_STATS, STOP_INSTRUMENTATION])"
proof -
  have "emitted w (w @ es @ fs) = es @ fs" for es fs :: "event list"
    using emitted_append [of w "es @ fs"] by simp
  then show ?thesis
    by (simp add: start_present_zero stop_present)
qed

text \<open>
  C5. With \<open>ICD_VALGRIND\<close> defined, \<open>valgrindCallgrindStart\<close> issues the request to zero
  the statistics exactly when \<open>zerostats\<close> is true, and writes the zeroing notice exactly
  when \<open>zerostats\<close> is true. When \<open>zerostats\<close> is false the call emits the starting
  notice and the request to start instrumentation and nothing more: the only request
  the backend receives is the start request, so the call does nothing to the
  statistics the backend has accumulated.
\<close>

theorem zero_stats_iff_flag:
  "(Backend ZERO_STATS \<in> set (emitted w (fst (valgrindCallgrindStart True zerostats w))))
     = zerostats
   \<and> (Notice ''Zeroing callgrind stats.''
        \<in> set (emitted w (fst (valgrindCallgrindStart True zerostats w)))) = zerostats
   \<and> emitted w (fst (valgrindCallgrindStart True False w))
       = [Notice ''Starting callgrind instrumentation...'', Backend START_INSTRUMENTATION]
   \<and> signals (emitted w (fst (valgrindCallgrindStart True False w))) = [START_INSTRUMENTATION]"
  by (cases zerostats) (simp_all add: start_present_zero start_present_keep)

section \<open>Call order, determinism and statelessness\<close>



text \<open>
  C9. Both functions are deterministic. For a fixed build configuration, two
  invocations of \<open>valgrindCallgrindStart\<close> with the same argument, made from any two
  states, return the same value and emit the same sequence of notices, diagnostics and
  backend signals; likewise two invocations of \<open>valgrindCallgrindStop\<close>.
\<close>

theorem calls_deterministic:
  "snd (valgrindCallgrindStart ICD_VALGRIND zerostats w1)
     = snd (valgrindCallgrindStart ICD_VALGRIND zerostats w2)
   \<and> emitted w1 (fst (valgrindCallgrindStart ICD_VALGRIND zerostats w1))
       = emitted w2 (fst (valgrindCallgrindStart ICD_VALGRIND zerostats w2))
   \<and> snd (valgrindCallgrindStop ICD_VALGRIND w1) = snd (valgrindCallgrindStop ICD_VALGRIND w2)
   \<and> emitted w1 (fst (valgrindCallgrindStop ICD_VALGRIND w1))
       = emitted w2 (fst (valgrindCallgrindStop ICD_VALGRIND w2))"
proof -
  have s: "valgrindCallgrindStart ICD_VALGRIND zerostats v
      = (v @ fst (valgrindCallgrindStart ICD_VALGRIND zerostats []),
         snd (valgrindCallgrindStart ICD_VALGRIND zerostats []))" for v
    using exec_appends [of ICD_VALGRIND "Start zerostats" v] by simp
  have t: "valgrindCallgrindStop ICD_VALGRIND v
      = (v @ fst (valgrindCallgrindStop ICD_VALGRIND []),
         snd (valgrindCallgrindStop ICD_VALGRIND []))" for v
    using exec_appends [of ICD_VALGRIND Stop v] by simp
  show ?thesis
    using s [of w1] s [of w2] t [of w1] t [of w2] by simp
qed

text \<open>
  C10. The facade keeps no state between calls. After any history \<open>h\<close> of earlier calls,
  a call \<open>c\<close> leaves everything emitted so far in place, appends what \<open>c\<close> emits as the
  only call of a fresh process, and returns what it returns there. Hence the output of
  a whole history is the concatenation of the outputs of its calls taken one by one,
  and the return values are those of the calls taken one by one: each depends on the
  call's argument and on \<open>ICD_VALGRIND\<close> only, not on the calls made before.
\<close>

theorem facade_keeps_no_state:
  "exec ICD_VALGRIND c (fst (run ICD_VALGRIND h w))
     = (fst (run ICD_VALGRIND h w) @ fst (exec ICD_VALGRIND c []), snd (exec ICD_VALGRIND c []))
   \<and> fst (run ICD_VALGRIND h w) = w @ concat (map (\<lambda>c. fst (exec ICD_VALGRIND c [])) h)
   \<and> snd (run ICD_VALGRIND h w) = map (\<lambda>c. snd (exec ICD_VALGRIND c [])) h"
  using exec_appends [of ICD_VALGRIND c "fst (run ICD_VALGRIND h w)"]
  by (simp add: run_appends)

end
